theory Spec2Isabelle
  imports Main "HOL-Library.Word"
begin

unbundle bit_operations_syntax

section \<open>Python values used by the license codecs\<close>

text \<open>
  The sources are Python 2 modules working on \<open>unicode\<close> text. Text that the
  functions receive or build from literals is modelled as \<open>string\<close>: a list of
  characters with code points below 256. Text that comes out of \<open>decode('utf-8')\<close> can
  hold any code point and is modelled as the list of its code points. Python integers
  are unbounded and modelled as \<open>int\<close>; Python's \<open>//\<close> and \<open>%\<close> round towards
  minus infinity, as \<open>div\<close> and \<open>mod\<close> on \<open>int\<close> do. A byte string is a list of
  8-bit words.
\<close>

type_synonym byte = "8 word"

datatype decode_reason =
    NoContent
  | NoSeparator
  | Incomplete
  | NonIntegerVersion
  | UnsupportedVersion int
  | NonBaseLength
  | IncorrectChecksum int int
  | Base64Failed
  | CannotDecompress

datatype generation_reason =
    NoTemplate
  | MissingKeyVariable string
  | MissingContentVariable string

datatype error =
    ValueError
  | IndexError
  | ZeroDivisionError
  | KeyError string
  | TypeError
  | StructError
  | UnicodeDecodeError
  | LicenseDecodeError decode_reason
  | LicenseGenerationError generation_reason

text \<open>\<open>ord(c)\<close>: the code point of a character.\<close>

definition py_ord :: "char \<Rightarrow> int" where
  "py_ord c = of_char c"

text \<open>\<open>xs[i]\<close> on a sequence: a negative index counts from the end, and an index out
  of range raises \<open>IndexError\<close>.\<close>

definition py_index :: "'a list \<Rightarrow> int \<Rightarrow> error + 'a" where
  "py_index xs i =
     (if 0 \<le> i \<and> i < int (length xs) then Inr (xs ! nat i)
      else if i < 0 \<and> - int (length xs) \<le> i then Inr (xs ! nat (int (length xs) + i))
      else Inl IndexError)"

text \<open>\<open>'{}'.format(n)\<close> for an integer \<open>n\<close>: its decimal numeral, with a minus sign
  when negative.\<close>

definition digit_char :: "nat \<Rightarrow> char" where
  "digit_char d = ''0123456789'' ! d"

fun dec_digits :: "nat \<Rightarrow> string" where
  "dec_digits n = (if n < 10 then [digit_char n] else dec_digits (n div 10) @ [digit_char (n mod 10)])"

declare dec_digits.simps [simp del]

definition format_int :: "int \<Rightarrow> string" where
  "format_int n = (if n < 0 then CHR ''-'' # dec_digits (nat (- n)) else dec_digits (nat n))"

text \<open>\<open>c.isspace()\<close> on a \<open>unicode\<close> character, for the code points below 256:
  the ASCII white space, the separators 28 to 31, NEL (133) and the no-break space
  (160).\<close>

definition isspace :: "char \<Rightarrow> bool" where
  "isspace c = ((of_char c :: nat) \<in> set [9, 10, 11, 12, 13, 28, 29, 30, 31, 32, 133, 160])"

text \<open>The value of a character as a digit of \<open>int(text, base)\<close>: \<open>0-9\<close>, then the
  letters in either case from 10 on.\<close>

definition digit_value :: "char \<Rightarrow> nat option" where
  "digit_value c =
     (let n = (of_char c :: nat)
      in if 48 \<le> n \<and> n \<le> 57 then Some (n - 48)
         else if 97 \<le> n \<and> n \<le> 122 then Some (n - 87)
         else if 65 \<le> n \<and> n \<le> 90 then Some (n - 55)
         else None)"

primrec parse_digits :: "nat \<Rightarrow> int \<Rightarrow> string \<Rightarrow> int option" where
  "parse_digits base acc [] = Some acc"
| "parse_digits base acc (c # cs) =
     (case digit_value c of
        None \<Rightarrow> None
      | Some d \<Rightarrow> if d < base then parse_digits base (acc * int base + int d) cs else None)"

text \<open>\<open>int(text, base)\<close> of Python 2 on \<open>unicode\<close> text, for the bases the sources use
  (10 and 31: no \<open>0x\<close>, \<open>0o\<close> or \<open>0b\<close> prefix is read). White space is skipped
  before the sign, after it and after the digits; at least one digit is required; every
  character up to the trailing white space must be a digit of the base. \<open>None\<close> is
  the \<open>ValueError\<close>.\<close>

definition py_int :: "nat \<Rightarrow> string \<Rightarrow> int option" where
  "py_int base text =
     (let s = dropWhile isspace text;
          negative = (s \<noteq> [] \<and> hd s = CHR ''-'');
          signed = (s \<noteq> [] \<and> (hd s = CHR ''+'' \<or> hd s = CHR ''-''));
          body = dropWhile isspace (if signed then tl s else s);
          digits = takeWhile (\<lambda>c. \<not> isspace c) body;
          rest = dropWhile (\<lambda>c. \<not> isspace c) body
      in if digits = [] \<or> dropWhile isspace rest \<noteq> [] then None
         else map_option (\<lambda>n. if negative then - n else n) (parse_digits base 0 digits))"

text \<open>Slices \<open>s[i:j]\<close>, \<open>s[i:]\<close> and \<open>s[:j]\<close>: a negative bound counts from the end,
  and every bound is clipped to the sequence.\<close>

definition clip_bound :: "nat \<Rightarrow> int \<Rightarrow> nat" where
  "clip_bound n i = (if i < 0 then nat (int n + i) else min n (nat i))"

definition slice :: "'a list \<Rightarrow> int \<Rightarrow> int \<Rightarrow> 'a list" where
  "slice s i j =
     (let a = clip_bound (length s) i; b = clip_bound (length s) j
      in take (b - a) (drop a s))"

definition slice_from :: "'a list \<Rightarrow> int \<Rightarrow> 'a list" where
  "slice_from s i = drop (clip_bound (length s) i) s"

definition slice_to :: "'a list \<Rightarrow> int \<Rightarrow> 'a list" where
  "slice_to s j = take (clip_bound (length s) j) s"

text \<open>\<open>s.rfind(c)\<close> for a one-character separator: the index of its last occurrence,
  or \<open>-1\<close>.\<close>

primrec rfind_from :: "char \<Rightarrow> string \<Rightarrow> nat \<Rightarrow> int \<Rightarrow> int" where
  "rfind_from c [] i found = found"
| "rfind_from c (x # xs) i found = rfind_from c xs (Suc i) (if x = c then int i else found)"

definition rfind :: "string \<Rightarrow> char \<Rightarrow> int" where
  "rfind s c = rfind_from c s 0 (- 1)"

text \<open>\<open>sep.join(items)\<close>.\<close>

fun join :: "'a list \<Rightarrow> 'a list list \<Rightarrow> 'a list" where
  "join sep [] = []"
| "join sep [x] = x"
| "join sep (x # y # ys) = x @ sep @ join sep (y # ys)"

section \<open>Bytes: UTF-8, \<open>struct\<close>, base64 and \<open>textwrap\<close>\<close>

text \<open>\<open>text.encode('utf-8')\<close> for code points below 256: one byte below 128, two bytes
  from 128 on.\<close>

definition utf8_encode :: "string \<Rightarrow> byte list" where
  "utf8_encode text =
     concat (map (\<lambda>c. let n = (of_char c :: nat)
                      in if n < 128 then [of_nat n]
                         else [of_nat (192 + n div 64), of_nat (128 + n mod 64)]) text)"

text \<open>\<open>data.decode('utf-8')\<close> of Python 2, giving the code points of the text: one byte
  below 128; a lead byte \<open>0xC2..0xDF\<close> with one continuation byte; \<open>0xE0..0xEF\<close> with two
  (after \<open>0xE0\<close> the first is at least \<open>0xA0\<close>; the surrogates are accepted, as Python 2
  does); \<open>0xF0..0xF4\<close> with three (after \<open>0xF0\<close> the first is at least \<open>0x90\<close>, after
  \<open>0xF4\<close> at most \<open>0x8F\<close>). Any other byte, a wrong continuation byte or a sequence cut
  short raises \<open>UnicodeDecodeError\<close>. A code point from \<open>0x10000\<close> on is one element, as
  on a build of Python with four-byte characters.\<close>

definition continuation_byte :: "byte \<Rightarrow> bool" where
  "continuation_byte b = (128 \<le> unat b \<and> unat b < 192)"

fun utf8_decode :: "byte list \<Rightarrow> error + nat list" where
  "utf8_decode [] = Inr []"
| "utf8_decode (b # bs) =
     (if unat b < 128 then map_sum id (Cons (unat b)) (utf8_decode bs)
      else if 194 \<le> unat b \<and> unat b \<le> 223 then
        (case bs of
           b1 # rest \<Rightarrow>
             if continuation_byte b1
             then map_sum id (Cons ((unat b - 192) * 64 + (unat b1 - 128))) (utf8_decode rest)
             else Inl UnicodeDecodeError
         | _ \<Rightarrow> Inl UnicodeDecodeError)
      else if 224 \<le> unat b \<and> unat b \<le> 239 then
        (case bs of
           b1 # b2 # rest \<Rightarrow>
             if continuation_byte b1 \<and> continuation_byte b2
                \<and> \<not> (unat b = 224 \<and> unat b1 < 160)
             then map_sum id
                    (Cons ((unat b - 224) * 4096 + (unat b1 - 128) * 64 + (unat b2 - 128)))
                    (utf8_decode rest)
             else Inl UnicodeDecodeError
         | _ \<Rightarrow> Inl UnicodeDecodeError)
      else if 240 \<le> unat b \<and> unat b \<le> 244 then
        (case bs of
           b1 # b2 # b3 # rest \<Rightarrow>
             if continuation_byte b1 \<and> continuation_byte b2 \<and> continuation_byte b3
                \<and> \<not> (unat b = 240 \<and> unat b1 < 144) \<and> \<not> (unat b = 244 \<and> unat b1 > 143)
             then map_sum id
                    (Cons ((unat b - 240) * 262144 + (unat b1 - 128) * 4096
                           + (unat b2 - 128) * 64 + (unat b3 - 128)))
                    (utf8_decode rest)
             else Inl UnicodeDecodeError
         | _ \<Rightarrow> Inl UnicodeDecodeError)
      else Inl UnicodeDecodeError)"

text \<open>The code points of a text, and the text of code points below 256.\<close>

definition codes_of_text :: "string \<Rightarrow> nat list" where
  "codes_of_text s = map of_char s"

definition text_of_codes :: "nat list \<Rightarrow> string" where
  "text_of_codes codes = map char_of codes"

text \<open>\<open>struct.pack('>L', n)\<close>: four bytes, most significant first; \<open>struct.error\<close> when
  \<open>n\<close> does not fit 32 bits. \<open>struct.unpack('>L', data)[0]\<close> needs exactly four
  bytes.\<close>

definition struct_pack_L :: "nat \<Rightarrow> error + byte list" where
  "struct_pack_L n =
     (if n < 2 ^ 32
      then Inr [of_nat (n div 2 ^ 24), of_nat (n div 2 ^ 16), of_nat (n div 2 ^ 8), of_nat n]
      else Inl StructError)"

definition struct_unpack_L :: "byte list \<Rightarrow> error + nat" where
  "struct_unpack_L data =
     (case data of
        [a, b, c, d] \<Rightarrow> Inr (unat a * 2 ^ 24 + unat b * 2 ^ 16 + unat c * 2 ^ 8 + unat d)
      | _ \<Rightarrow> Inl StructError)"

text \<open>\<open>base64.b64encode\<close>: three bytes give four symbols of the standard alphabet,
  and a last group of one or two bytes is padded with \<open>=\<close> (byte 61).\<close>

definition b64_alphabet :: string where
  "b64_alphabet = ''ABCDEFGHIJKLMNOPQRSTUVWXYZabcdefghijklmnopqrstuvwxyz0123456789+/''"

definition b64_symbol :: "nat \<Rightarrow> byte" where
  "b64_symbol i = of_nat (of_char (b64_alphabet ! i))"

fun b64encode :: "byte list \<Rightarrow> byte list" where
  "b64encode [] = []"
| "b64encode [a] = [b64_symbol (unat a div 4), b64_symbol (unat a mod 4 * 16), 61, 61]"
| "b64encode [a, b] =
     [b64_symbol (unat a div 4), b64_symbol (unat a mod 4 * 16 + unat b div 16),
      b64_symbol (unat b mod 16 * 4), 61]"
| "b64encode (a # b # c # rest) =
     [b64_symbol (unat a div 4), b64_symbol (unat a mod 4 * 16 + unat b div 16),
      b64_symbol (unat b mod 16 * 4 + unat c div 64), b64_symbol (unat c mod 64)]
     @ b64encode rest"

text \<open>The bytes that \<open>b64encode\<close> writes: the 64 symbols and the padding.\<close>

definition b64_byte :: "byte \<Rightarrow> bool" where
  "b64_byte b = ((\<exists>i < 64. b = b64_symbol i) \<or> b = 61)"

text \<open>\<open>base64.b64decode\<close> of Python 2 is \<open>binascii.a2b_base64\<close>, with its error turned
  into \<open>TypeError\<close>. It skips every byte that is not a symbol, shifts the six bits of
  each symbol into \<open>leftchar\<close> and emits a byte whenever eight bits are there; a \<open>=\<close>
  ends the input once the quad holds a byte (after two symbols only when another \<open>=\<close>
  follows). Bits left over at the end are an error. \<open>table_a2b_base64\<close> gives the value
  of a symbol (\<open>=\<close> counts as a symbol of value 0 there); \<open>binascii_find_valid s num\<close>
  is the symbol after \<open>num\<close> earlier symbols of \<open>s\<close>. The shift \<open>leftchar << 6 | c\<close>
  is written as \<open>leftchar * 64 + c\<close>.\<close>

definition table_a2b_base64 :: "byte \<Rightarrow> nat option" where
  "table_a2b_base64 c =
     (let n = unat c
      in if 65 \<le> n \<and> n \<le> 90 then Some (n - 65)
         else if 97 \<le> n \<and> n \<le> 122 then Some (n - 71)
         else if 48 \<le> n \<and> n \<le> 57 then Some (n + 4)
         else if n = 43 then Some 62
         else if n = 47 then Some 63
         else if n = 61 then Some 0
         else None)"

fun binascii_find_valid :: "byte list \<Rightarrow> nat \<Rightarrow> byte option" where
  "binascii_find_valid [] num = None"
| "binascii_find_valid (c # s) num =
     (if unat c \<le> 127 \<and> table_a2b_base64 c \<noteq> None
      then (if num = 0 then Some c else binascii_find_valid s (num - 1))
      else binascii_find_valid s num)"

fun a2b_base64_loop :: "byte list \<Rightarrow> nat \<Rightarrow> nat \<Rightarrow> nat \<Rightarrow> byte list \<Rightarrow> nat \<times> byte list" where
  "a2b_base64_loop [] quad_pos leftchar leftbits bin_data = (leftbits, bin_data)"
| "a2b_base64_loop (this_ch # rest) quad_pos leftchar leftbits bin_data =
     (if unat this_ch > 127 \<or> this_ch = 13 \<or> this_ch = 10 \<or> this_ch = 32
      then a2b_base64_loop rest quad_pos leftchar leftbits bin_data
      else if this_ch = 61 then
        (if quad_pos < 2 \<or> (quad_pos = 2 \<and> binascii_find_valid (this_ch # rest) 1 \<noteq> Some 61)
         then a2b_base64_loop rest quad_pos leftchar leftbits bin_data
         else (0, bin_data))
      else
        (case table_a2b_base64 this_ch of
           None \<Rightarrow> a2b_base64_loop rest quad_pos leftchar leftbits bin_data
         | Some v \<Rightarrow>
             (let quad_pos = (quad_pos + 1) mod 4;
                  leftchar = leftchar * 64 + v;
                  leftbits = leftbits + 6
              in if leftbits \<ge> 8
                 then a2b_base64_loop rest quad_pos (leftchar mod 2 ^ (leftbits - 8)) (leftbits - 8)
                        (bin_data @ [of_nat (leftchar div 2 ^ (leftbits - 8))])
                 else a2b_base64_loop rest quad_pos leftchar leftbits bin_data)))"

definition b64decode :: "byte list \<Rightarrow> error + byte list" where
  "b64decode s =
     (case a2b_base64_loop s 0 0 0 [] of
        (leftbits, bin_data) \<Rightarrow> if leftbits \<noteq> 0 then Inl TypeError else Inr bin_data)"

text \<open>\<open>textwrap.wrap(text, width)\<close> for a text without white space and hyphens, which
  is all the encoders pass: such a text is one word to \<open>textwrap\<close>, longer words are
  broken, so every line takes the next \<open>width\<close> characters. \<open>'\n'.join(lines) + '\n'\<close>
  is \<open>wrapped\<close>, on the code points of the text (the newline is 10).\<close>

function wrap_long_word :: "nat \<Rightarrow> 'a list \<Rightarrow> 'a list list" where
  "wrap_long_word width text =
     (if text = [] \<or> width = 0 then []
      else take width text # wrap_long_word width (drop width text))"
  by pat_completeness auto
termination
  by (relation "measure (\<lambda>(width, text). length text)") auto

declare wrap_long_word.simps [simp del]

definition textwrap_wrap :: "'a list \<Rightarrow> nat \<Rightarrow> 'a list list" where
  "textwrap_wrap text width = wrap_long_word width text"

definition wrapped :: "nat list \<Rightarrow> nat \<Rightarrow> nat list" where
  "wrapped text width = join [10] (textwrap_wrap text width) @ [10]"

text \<open>\<open>'{:0{}}'.format(n, width)\<close>: the decimal numeral padded with zeros after the
  sign.\<close>

definition format_zero_padded :: "int \<Rightarrow> nat \<Rightarrow> string" where
  "format_zero_padded n width =
     (let digits = dec_digits (nat \<bar>n\<bar>);
          sign = (if n < 0 then ''-'' else [])
      in sign @ replicate (width - length sign - length digits) (CHR ''0'') @ digits)"

section \<open>The radix codec (atlassian-keygen/utils.py)\<close>

text \<open>\<open>string.digits + string.ascii_lowercase\<close>, the default alphabet.\<close>

definition default_alphabet :: string where
  "default_alphabet = ''0123456789abcdefghijklmnopqrstuvwxyz''"

text \<open>The \<open>while number > 0\<close> loop of \<open>_iter_digits\<close>, with the digits yielded so far.
  \<open>divmod\<close> raises \<open>ZeroDivisionError\<close> for base 0, and the loop does not end for
  base 1: not returning is the value \<open>None\<close>.\<close>

partial_function (option) iter_digits_while ::
  "int \<Rightarrow> int \<Rightarrow> string \<Rightarrow> string \<Rightarrow> (error + string) option" where
  "iter_digits_while number base alphabet yielded =
     (if number > 0 then
        (if base = 0 then Some (Inl ZeroDivisionError)
         else (case py_index alphabet (number mod base) of
                 Inl e \<Rightarrow> Some (Inl e)
               | Inr d \<Rightarrow> iter_digits_while (number div base) base alphabet (yielded @ [d])))
      else Some (Inr yielded))"

declare iter_digits_while.simps [code]

text \<open>\<open>_iter_digits\<close>: everything the generator yields, in order.\<close>

definition iter_digits :: "int \<Rightarrow> int \<Rightarrow> string \<Rightarrow> (error + string) option" where
  "iter_digits number base alphabet =
     (if number = 0 then
        (case py_index alphabet 0 of
           Inl e \<Rightarrow> Some (Inl e)
         | Inr d \<Rightarrow> Some (Inr [d]))
      else
        (let is_positive = \<not> number < 0;
             magnitude = (if number < 0 then - number else number)
         in case iter_digits_while magnitude base alphabet [] of
              None \<Rightarrow> None
            | Some (Inl e) \<Rightarrow> Some (Inl e)
            | Some (Inr ds) \<Rightarrow> Some (Inr (if \<not> is_positive then ds @ ''-'' else ds))))"

text \<open>\<open>int2str\<close>: the yielded characters joined and reversed.\<close>

definition int2str :: "int \<Rightarrow> int \<Rightarrow> string \<Rightarrow> (error + string) option" where
  "int2str number base alphabet = map_option (map_sum id rev) (iter_digits number base alphabet)"

text \<open>The digit sequence as the specification words it: repeated \<open>divmod\<close>, the least
  significant digit first and the most significant last.\<close>

function spec_divmod_digits :: "int \<Rightarrow> int \<Rightarrow> string \<Rightarrow> string" where
  "spec_divmod_digits n b alphabet =
     (if n \<le> 0 \<or> b < 2 then []
      else alphabet ! nat (n mod b) # spec_divmod_digits (n div b) b alphabet)"
  by pat_completeness auto
termination
proof (relation "measure (\<lambda>(n, b, alphabet). nat n)")
  show "wf (measure (\<lambda>(n, b, alphabet). nat n))"
    by simp
next
  fix n b :: int and alphabet :: string
  assume "\<not> (n \<le> 0 \<or> b < 2)"
  then have "0 < n" and "2 \<le> b"
    by simp_all
  then have "n div b < n"
    by (simp add: int_div_less_self)
  with \<open>0 < n\<close> show "((n div b, b, alphabet), (n, b, alphabet)) \<in> measure (\<lambda>(n, b, alphabet). nat n)"
    by simp
qed

declare spec_divmod_digits.simps [simp del]

section \<open>Format B: the RS hash (gliffy-keygen/generate\_license.py)\<close>

definition uint32_mask :: int where
  "uint32_mask = push_bit 32 1 - 1"

definition uint64_mask :: int where
  "uint64_mask = push_bit 64 1 - 1"

definition int32_mask :: int where
  "int32_mask = push_bit 31 1 - 1"

definition rs_b :: int where
  "rs_b = 378551"

text \<open>The body of \<open>for c in text\<close>, on the code points of the text: the state is the
  pair of the multiplier \<open>a\<close> and the accumulator \<open>h\<close>.\<close>

fun rs_hash_loop :: "int \<Rightarrow> int \<Rightarrow> int list \<Rightarrow> int \<times> int" where
  "rs_hash_loop a h [] = (a, h)"
| "rs_hash_loop a h (c # cs) =
     (let h1 = h * a + c;
          h2 = h1 AND uint64_mask;
          a1 = a * rs_b;
          a2 = a1 AND uint32_mask
      in rs_hash_loop a2 h2 cs)"

text \<open>\<open>result\<close>, the integer that \<open>rs_hash\<close> formats, as a function of the code
  points.\<close>

definition rs_hash_result :: "int list \<Rightarrow> int" where
  "rs_hash_result codes = snd (rs_hash_loop 63689 0 codes) AND int32_mask"

definition rs_hash :: "string \<Rightarrow> string" where
  "rs_hash text = format_int (rs_hash_result (map py_ord text))"

text \<open>The algorithm as the specification words it, with every modulus written out.\<close>

fun spec_rs_loop :: "int \<Rightarrow> int \<Rightarrow> int list \<Rightarrow> int" where
  "spec_rs_loop a h [] = h"
| "spec_rs_loop a h (c # cs) = spec_rs_loop ((a * 378551) mod 2 ^ 32) ((h * a + c) mod 2 ^ 64) cs"

definition spec_rs_hash :: "int list \<Rightarrow> int" where
  "spec_rs_hash codes = spec_rs_loop 63689 0 codes mod 2 ^ 31"

section \<open>Format B: key derivation and license text (gliffy-keygen/generate\_license.py)\<close>

text \<open>The values of template variables: integers (the defaults) and text (the
  defaults and every variable given on the command line).\<close>

datatype pyval = PInt int | PStr string

text \<open>What a replacement field \<open>{name}\<close> inserts for a value.\<close>

fun format_value :: "pyval \<Rightarrow> string" where
  "format_value (PInt n) = format_int n"
| "format_value (PStr s) = s"

text \<open>\<open>v > 1\<close> in Python 2: integers compare by value, and text is greater than every
  number.\<close>

fun greater_than_one :: "pyval \<Rightarrow> bool" where
  "greater_than_one (PInt n) = (n > 1)"
| "greater_than_one (PStr s) = True"

text \<open>\<open>template.format(**kwargs)\<close> for templates of literal text, doubled braces and
  named replacement fields \<open>{name}\<close>, which is all the templates of the sources use:
  the second argument is the field name being read, if any. A name that is not a
  keyword raises \<open>KeyError\<close> when its field is reached; a lone brace raises
  \<open>ValueError\<close>. Conversions, format specifications, attributes, indices and
  positional fields are not modelled.\<close>

fun format_scan :: "string \<Rightarrow> string option \<Rightarrow> (string \<rightharpoonup> pyval) \<Rightarrow> error + string" where
  "format_scan [] None kwargs = Inr []"
| "format_scan [] (Some name) kwargs = Inl ValueError"
| "format_scan (c # cs) (Some name) kwargs =
     (if c = CHR ''}'' then
        (case kwargs name of
           None \<Rightarrow> Inl (KeyError name)
         | Some v \<Rightarrow> map_sum id (\<lambda>r. format_value v @ r) (format_scan cs None kwargs))
      else format_scan cs (Some (name @ [c])) kwargs)"
| "format_scan (c # cs) None kwargs =
     (if c = CHR ''{'' then
        (case cs of
           [] \<Rightarrow> Inl ValueError
         | d # rest \<Rightarrow>
             if d = CHR ''{'' then map_sum id (Cons (CHR ''{'')) (format_scan rest None kwargs)
             else format_scan cs (Some []) kwargs)
      else if c = CHR ''}'' then
        (case cs of
           [] \<Rightarrow> Inl ValueError
         | d # rest \<Rightarrow>
             if d = CHR ''}'' then map_sum id (Cons (CHR ''}'')) (format_scan rest None kwargs)
             else Inl ValueError)
      else map_sum id (Cons c) (format_scan cs None kwargs))"

definition py_format :: "string \<Rightarrow> (string \<rightharpoonup> pyval) \<Rightarrow> error + string" where
  "py_format template kwargs = format_scan template None kwargs"

text \<open>\<open>text.strip()\<close>.\<close>

definition strip :: "string \<Rightarrow> string" where
  "strip text = rev (dropWhile isspace (rev (dropWhile isspace text)))"

text \<open>A generator expression consumed in order: the first error ends it.\<close>

fun collect :: "('a \<Rightarrow> error + 'b) \<Rightarrow> 'a list \<Rightarrow> error + 'b list" where
  "collect f [] = Inr []"
| "collect f (x # xs) =
     (case f x of
        Inl e \<Rightarrow> Inl e
      | Inr y \<Rightarrow> (case collect f xs of Inl e \<Rightarrow> Inl e | Inr ys \<Rightarrow> Inr (y # ys)))"

definition KNOWN_PRODUCTS :: "string \<rightharpoonup> string" where
  "KNOWN_PRODUCTS =
     [''jira'' \<mapsto> ''Gliffy JIRA Plugin'', ''confluence'' \<mapsto> ''Gliffy Confluence Plugin'']"

definition LICENSE_TEMPLATE :: string where
  "LICENSE_TEMPLATE =
     ''{{\"licenseVersion\":{license_version},\"licenseKey\":\"{license_key}\",\"licensedSystem\":\"{name}\",''
     @ ''\"licensedTo\":\"{organisation}\",\"licenseType\":\"{license_type}\",\"quantityUsers\":{quantity_users},''
     @ ''\"quantityNodes\":{quantity_nodes},\"expirationDate\":\"{expiration_date}\"}}''"

definition ENCODED_LICENSE_LINE_LENGTH :: nat where
  "ENCODED_LICENSE_LINE_LENGTH = 76"

text \<open>The generator object: \<open>__init__\<close> stores the class's template in
  \<open>self._template\<close>.\<close>

record gliffy_generator =
  self_template :: string

definition gliffy_init :: gliffy_generator where
  "gliffy_init = \<lparr>self_template = LICENSE_TEMPLATE\<rparr>"

definition generate_default_variables :: "string \<rightharpoonup> pyval" where
  "generate_default_variables =
     [''license_version'' \<mapsto> PInt 2,
      ''license_type'' \<mapsto> PStr ''COMMERCIAL_ENTERPRISE'',
      ''quantity_users'' \<mapsto> PInt (- 1),
      ''quantity_nodes'' \<mapsto> PInt (- 1),
      ''expiration_date'' \<mapsto> PStr ''12/31/32'']"

definition key_templates :: "string list" where
  "key_templates =
     [''{quantity_users}{license_type}{name}{organisation}{expiration_date}{node_part}'',
      ''{organisation}{quantity_users}{node_part}{license_type}{expiration_date}{name}'',
      ''{node_part}{organisation}{name}{quantity_users}{license_type}{expiration_date}'',
      ''{name}{expiration_date}{node_part}{organisation}{license_type}{quantity_users}'']"

text \<open>\<open>_calculate_license_key\<close>. The call \<open>t.format(node_part=node_part, **variables)\<close>
  raises \<open>TypeError\<close> when \<open>variables\<close> has a key \<open>node_part\<close> of its own (the
  keyword is given twice).\<close>

definition calculate_license_key :: "(string \<rightharpoonup> pyval) \<Rightarrow> error + string" where
  "calculate_license_key variables =
     (let nodes_count = (case variables ''quantity_nodes'' of None \<Rightarrow> PInt 0 | Some v \<Rightarrow> v);
          node_part = (if greater_than_one nodes_count then format_value nodes_count else [])
      in case collect
                (\<lambda>t. if variables ''node_part'' \<noteq> None then Inl TypeError
                     else map_sum id rs_hash
                            (py_format t (variables(''node_part'' \<mapsto> PStr node_part))))
                key_templates of
           Inl e \<Rightarrow> Inl e
         | Inr hashes \<Rightarrow> Inr (join ''-'' hashes))"

text \<open>\<open>generate\<close>. \<open>custom_variables\<close> and \<open>custom_template\<close> default to \<open>None\<close>.\<close>

definition generate ::
  "gliffy_generator \<Rightarrow> string \<Rightarrow> string \<Rightarrow> (string \<rightharpoonup> pyval) option \<Rightarrow> string option
   \<Rightarrow> error + string" where
  "generate self product organisation custom_variables custom_template =
     (let template =
            (if self_template self \<noteq> [] then self_template self
             else (case custom_template of
                     None \<Rightarrow> []
                   | Some t \<Rightarrow> if t \<noteq> [] then t else []));
          template = strip template
      in if template = [] then Inl (LicenseGenerationError NoTemplate)
         else
           (let template_variables = generate_default_variables;
                product_name = KNOWN_PRODUCTS product;
                template_variables =
                  (case product_name of
                     None \<Rightarrow> template_variables
                   | Some n \<Rightarrow> if n \<noteq> [] then template_variables(''name'' \<mapsto> PStr n)
                              else template_variables);
                template_variables =
                  (if organisation \<noteq> [] then template_variables(''organisation'' \<mapsto> PStr organisation)
                   else template_variables);
                template_variables =
                  template_variables ++ (case custom_variables of None \<Rightarrow> Map.empty | Some cv \<Rightarrow> cv)
            in case calculate_license_key template_variables of
                 Inl (KeyError k) \<Rightarrow> Inl (LicenseGenerationError (MissingKeyVariable k))
               | Inl e \<Rightarrow> Inl e
               | Inr license_key \<Rightarrow>
                   (case py_format template (template_variables(''license_key'' \<mapsto> PStr license_key)) of
                      Inl (KeyError k) \<Rightarrow> Inl (LicenseGenerationError (MissingContentVariable k))
                    | Inl e \<Rightarrow> Inl e
                    | Inr gliffy_license \<Rightarrow> Inr gliffy_license)))"

text \<open>A field mapping used as a concrete input: the five text fields of a license, with
  no \<open>quantity_nodes\<close>.\<close>

definition sample_fields :: "string \<rightharpoonup> pyval" where
  "sample_fields =
     [''quantity_users'' \<mapsto> PInt 5,
      ''license_type'' \<mapsto> PStr ''TRIAL'',
      ''name'' \<mapsto> PStr ''jira'',
      ''organisation'' \<mapsto> PStr ''ACME'',
      ''expiration_date'' \<mapsto> PStr ''12/31/32'']"

section \<open>Format A: the Atlassian codec (atlassian-keygen)\<close>

text \<open>The collaborators of the codec: \<open>zlib\<close> (compression at level 9, and
  decompression, where \<open>None\<close> is \<open>zlib.error\<close>), SHA-1, and the DSA key loaded by the
  encoder or named by the decoder's \<open>public_key_path\<close>.\<close>

record env =
  zlib_compress :: "byte list \<Rightarrow> byte list"
  zlib_decompress :: "byte list \<Rightarrow> byte list option"
  sha1 :: "byte list \<Rightarrow> byte list"
  sign_asn1 :: "byte list \<Rightarrow> byte list"
  verify_asn1 :: "byte list \<Rightarrow> byte list \<Rightarrow> bool"

definition VERSION_NUMBER :: int where
  "VERSION_NUMBER = 2"

definition VALID_VERSION_NUMBERS :: "int set" where
  "VALID_VERSION_NUMBERS = {1, 2}"

definition VERSION_LENGTH :: nat where
  "VERSION_LENGTH = 3"

definition ENCODED_LICENSE_LENGTH_BASE :: nat where
  "ENCODED_LICENSE_LENGTH_BASE = 31"

definition ENCODED_LICENSE_LENGTH_ALPHABET :: string where
  "ENCODED_LICENSE_LENGTH_ALPHABET = default_alphabet"

definition LICENSE_PREFIX :: "nat list" where
  "LICENSE_PREFIX = [13, 14, 12, 10, 15]"

definition SEPARATOR :: char where
  "SEPARATOR = CHR ''X''"

subsection \<open>generate\_license.py: \<open>AtlassianLicenseEncoder\<close>\<close>

text \<open>\<open>encoded_license\<close>, the token before it is wrapped, as its code points
  (\<open>license_base64\<close> comes out of \<open>decode('utf-8')\<close>). \<open>None\<close> is \<open>int2str\<close> not
  returning.\<close>

definition encoded_license :: "env \<Rightarrow> string \<Rightarrow> (error + nat list) option" where
  "encoded_license e license_text =
     (let compressed_data = zlib_compress e (utf8_encode license_text);
          license_prefix = utf8_encode (map char_of LICENSE_PREFIX);
          license_bytes = license_prefix @ compressed_data;
          license_digest = sha1 e license_bytes;
          signature_bytes = sign_asn1 e license_digest;
          license_length = length license_bytes
      in case struct_pack_L license_length of
           Inl err \<Rightarrow> Some (Inl err)
         | Inr length_bytes \<Rightarrow>
             (case utf8_decode (b64encode (length_bytes @ license_bytes @ signature_bytes)) of
                Inl err \<Rightarrow> Some (Inl err)
              | Inr license_base64 \<Rightarrow>
                  (case int2str (int (length license_base64)) (int ENCODED_LICENSE_LENGTH_BASE)
                          ENCODED_LICENSE_LENGTH_ALPHABET of
                     None \<Rightarrow> None
                   | Some (Inl err) \<Rightarrow> Some (Inl err)
                   | Some (Inr encoded_length) \<Rightarrow>
                       (let version_text = format_zero_padded VERSION_NUMBER (VERSION_LENGTH - 1)
                        in Some (Inr (concat [license_base64, codes_of_text [SEPARATOR],
                                              codes_of_text version_text,
                                              codes_of_text encoded_length]))))))"

text \<open>\<open>AtlassianLicenseEncoder.encode\<close>.\<close>

definition encoder_encode :: "env \<Rightarrow> string \<Rightarrow> (error + nat list) option" where
  "encoder_encode e license_text =
     map_option (map_sum id (\<lambda>token. wrapped token ENCODED_LICENSE_LINE_LENGTH))
       (encoded_license e license_text)"

subsection \<open>gliffy-keygen: \<open>GliffyLicenseGenerator.encode\<close>\<close>

definition gliffy_encode :: "string \<Rightarrow> error + nat list" where
  "gliffy_encode license_text =
     (case utf8_decode (b64encode (utf8_encode license_text)) of
        Inl err \<Rightarrow> Inl err
      | Inr license_base64 \<Rightarrow> Inr (wrapped license_base64 ENCODED_LICENSE_LINE_LENGTH))"

subsection \<open>decode\_license.py: \<open>AtlassianLicenseDecoder\<close>\<close>

definition remove_whitespaces :: "string \<Rightarrow> string" where
  "remove_whitespaces text = filter (\<lambda>c. \<not> isspace c) text"

definition get_license_content :: "string \<Rightarrow> error + string" where
  "get_license_content atlassian_license =
     (if atlassian_license = [] then Inl (LicenseDecodeError NoContent)
      else
        (let pos = rfind atlassian_license SEPARATOR
         in if pos < 0 then Inl (LicenseDecodeError NoSeparator)
            else if pos + int VERSION_LENGTH \<ge> int (length atlassian_license)
            then Inl (LicenseDecodeError Incomplete)
            else
              (case py_int 10 (slice atlassian_license (pos + 1) (pos + int VERSION_LENGTH)) of
                 None \<Rightarrow> Inl (LicenseDecodeError NonIntegerVersion)
               | Some version \<Rightarrow>
                   if version \<notin> VALID_VERSION_NUMBERS
                   then Inl (LicenseDecodeError (UnsupportedVersion version))
                   else
                     (case py_int ENCODED_LICENSE_LENGTH_BASE
                             (slice_from atlassian_license (pos + int VERSION_LENGTH)) of
                        None \<Rightarrow> Inl (LicenseDecodeError NonBaseLength)
                      | Some license_length \<Rightarrow>
                          if pos \<noteq> license_length
                          then Inl (LicenseDecodeError (IncorrectChecksum license_length pos))
                          else Inr (slice_to atlassian_license license_length)))))"

definition split_license_content :: "string \<Rightarrow> error + byte list \<times> byte list" where
  "split_license_content license_content =
     (case b64decode (utf8_encode license_content) of
        Inl TypeError \<Rightarrow> Inl (LicenseDecodeError Base64Failed)
      | Inl err \<Rightarrow> Inl err
      | Inr decoded_bytes \<Rightarrow>
          (case struct_unpack_L (slice_to decoded_bytes 4) of
             Inl err \<Rightarrow> Inl err
           | Inr text_length \<Rightarrow>
               Inr (slice decoded_bytes 4 (4 + int text_length),
                    slice_from decoded_bytes (4 + int text_length))))"

definition decompress :: "env \<Rightarrow> byte list \<Rightarrow> error + nat list" where
  "decompress e compressed_text =
     (case zlib_decompress e (slice_from compressed_text (int (length LICENSE_PREFIX))) of
        None \<Rightarrow> Inl (LicenseDecodeError CannotDecompress)
      | Some data \<Rightarrow> utf8_decode data)"

definition verify_license :: "env \<Rightarrow> byte list \<Rightarrow> byte list \<Rightarrow> bool" where
  "verify_license e compressed_license license_signature =
     (let digest = sha1 e compressed_license
      in verify_asn1 e digest license_signature)"

text \<open>\<open>AtlassianLicenseDecoder.decode\<close>: the code points of the decoded license text,
  and \<open>verified\<close>, which is \<open>None\<close> when no verification was asked for or no key is
  named.\<close>

definition decoder_decode ::
  "env \<Rightarrow> string \<Rightarrow> string \<Rightarrow> bool \<Rightarrow> error + nat list \<times> bool option" where
  "decoder_decode e public_key_path atlassian_license need_verify =
     (if atlassian_license = [] then Inl ValueError
      else
        (let atlassian_license = remove_whitespaces atlassian_license
         in case get_license_content atlassian_license of
              Inl err \<Rightarrow> Inl err
            | Inr license_content \<Rightarrow>
                (case split_license_content license_content of
                   Inl err \<Rightarrow> Inl err
                 | Inr (compressed_license, license_signature) \<Rightarrow>
                     (let verified =
                            (if need_verify \<and> public_key_path \<noteq> []
                             then Some (verify_license e compressed_license license_signature)
                             else None)
                      in case decompress e compressed_license of
                           Inl err \<Rightarrow> Inl err
                         | Inr decompressed_content \<Rightarrow> Inr (decompressed_content, verified)))))"

text \<open>The three errors of the separator check of \<open>_get_license_content\<close>: an empty
  token, no separator, and too little after the separator.\<close>

definition separator_check_errors :: "(error + string) set" where
  "separator_check_errors =
     {Inl (LicenseDecodeError NoContent), Inl (LicenseDecodeError NoSeparator),
      Inl (LicenseDecodeError Incomplete)}"

text \<open>Stand-ins for the collaborators, to run the codec on concrete input: nothing is
  compressed, the digest is the length of the data, and the signature of a digest is
  the digest reversed.\<close>

definition sample_env :: env where
  "sample_env =
     \<lparr>zlib_compress = (\<lambda>data. data),
      zlib_decompress = (\<lambda>data. Some data),
      sha1 = (\<lambda>data. [of_nat (length data)]),
      sign_asn1 = (\<lambda>digest. rev digest),
      verify_asn1 = (\<lambda>digest signature. signature = rev digest)\<rparr>"

text \<open>Names for the values of the local variables of \<open>encode\<close>, to state what it
  returns: \<open>license_bytes\<close>, the bytes handed to \<open>b64encode\<close> (the packed length, the
  license bytes and the signature), and the code points of \<open>license_base64\<close>.\<close>

definition license_bytes_of :: "env \<Rightarrow> string \<Rightarrow> byte list" where
  "license_bytes_of e license_text =
     utf8_encode (map char_of LICENSE_PREFIX) @ zlib_compress e (utf8_encode license_text)"

definition signed_blob :: "env \<Rightarrow> string \<Rightarrow> byte list" where
  "signed_blob e license_text =
     (let license_bytes = license_bytes_of e license_text;
          n = length license_bytes
      in [of_nat (n div 2 ^ 24), of_nat (n div 2 ^ 16), of_nat (n div 2 ^ 8), of_nat n]
         @ license_bytes @ sign_asn1 e (sha1 e license_bytes))"

definition license_base64_of :: "env \<Rightarrow> string \<Rightarrow> nat list" where
  "license_base64_of e license_text = map unat (b64encode (signed_blob e license_text))"

text \<open>The line wrap as the specification words it: \<open>out\<close> is the token cut into
  \<open>ceil(n / width)\<close> lines, each of at most \<open>width\<close> characters and only the last
  possibly shorter, joined by newlines, with a newline at the end.\<close>

definition wrapped_at :: "nat \<Rightarrow> nat list \<Rightarrow> nat list \<Rightarrow> bool" where
  "wrapped_at width token out =
     (\<exists>lines. out = join [10] lines @ [10]
        \<and> concat lines = token
        \<and> length lines = (length token + width - 1) div width
        \<and> (\<forall>line \<in> set lines. 0 < length line \<and> length line \<le> width)
        \<and> (\<forall>i. Suc i < length lines \<longrightarrow> length (lines ! i) = width))"

text \<open>A text that is one word to \<open>textwrap\<close>: ASCII without white space and hyphens.\<close>

definition one_word :: "nat list \<Rightarrow> bool" where
  "one_word token = (\<forall>c \<in> set token. c < 128 \<and> \<not> isspace (char_of c) \<and> c \<noteq> 45)"

section \<open>Theorems\<close>

lemma uint64_mask_and: "k AND uint64_mask = k mod 2 ^ 64"
proof -
  have m: "uint64_mask = mask 64"
    unfolding uint64_mask_def mask_eq_exp_minus_1 push_bit_eq_mult by simp
  show ?thesis
    by (simp only: m take_bit_eq_mod flip: take_bit_eq_mask)
qed

lemma uint32_mask_and: "k AND uint32_mask = k mod 2 ^ 32"
proof -
  have m: "uint32_mask = mask 32"
    unfolding uint32_mask_def mask_eq_exp_minus_1 push_bit_eq_mult by simp
  show ?thesis
    by (simp only: m take_bit_eq_mod flip: take_bit_eq_mask)
qed

lemma int32_mask_and: "k AND int32_mask = k mod 2 ^ 31"
proof -
  have m: "int32_mask = mask 31"
    unfolding int32_mask_def mask_eq_exp_minus_1 push_bit_eq_mult by simp
  show ?thesis
    by (simp only: m take_bit_eq_mod flip: take_bit_eq_mask)
qed

lemma rs_hash_loop_spec: "snd (rs_hash_loop a h cs) = spec_rs_loop a h cs"
  by (induction cs arbitrary: a h) (simp_all add: uint64_mask_and uint32_mask_and rs_b_def)

lemma rs_hash_result_spec: "rs_hash_result cs = spec_rs_hash cs"
  by (simp add: rs_hash_result_def spec_rs_hash_def int32_mask_and rs_hash_loop_spec)

lemmas rs_eval = rs_hash_def rs_hash_result_spec spec_rs_hash_def py_ord_def
  format_int_def dec_digits.simps digit_char_def

lemma dec_digits_0: "dec_digits 0 = ''0''"
  by (simp add: dec_digits.simps digit_char_def)

text \<open>
  C3. For every text, \<open>rs_hash\<close> computes the documented algorithm: from \<open>a = 63689\<close>,
  \<open>b = 378551\<close>, \<open>h = 0\<close>, each code point in order gives
  \<open>h = (h * a + codepoint) mod 2^64\<close> and \<open>a = (a * b) mod 2^32\<close>, and the result is
  \<open>h mod 2^31\<close>, formatted in decimal; the result lies in \<open>[0, 2^31 - 1]\<close>, and the hash
  of the empty text is 0.
\<close>

theorem rs_hash_two_phase_modulus:
  "rs_hash_result codes = spec_rs_hash codes
   \<and> rs_hash text = format_int (spec_rs_hash (map py_ord text))
   \<and> 0 \<le> rs_hash_result codes \<and> rs_hash_result codes \<le> 2 ^ 31 - 1
   \<and> rs_hash_result [] = 0 \<and> rs_hash [] = ''0''"
proof -
  have eq: "rs_hash_result cs = spec_rs_hash cs" for cs
    by (rule rs_hash_result_spec)
  have lo: "0 \<le> rs_hash_result codes"
    by (simp add: eq spec_rs_hash_def)
  have "rs_hash_result codes < 2 ^ 31"
    by (simp add: eq spec_rs_hash_def)
  then have hi: "rs_hash_result codes \<le> 2 ^ 31 - 1"
    by simp
  have empty: "rs_hash_result [] = 0"
    by (simp add: eq spec_rs_hash_def)
  have "rs_hash [] = ''0''"
    by (simp add: rs_hash_def empty format_int_def dec_digits_0)
  with eq lo hi empty show ?thesis
    by (simp add: rs_hash_def)
qed

subsection \<open>The radix codec\<close>

lemma py_index_in_range:
  "0 \<le> i \<Longrightarrow> i < int (length xs) \<Longrightarrow> py_index xs i = Inr (xs ! nat i)"
  by (simp add: py_index_def)

lemma iter_digits_while_spec:
  "2 \<le> b \<Longrightarrow> b \<le> int (length alphabet) \<Longrightarrow>
   iter_digits_while n b alphabet acc = Some (Inr (acc @ spec_divmod_digits n b alphabet))"
proof (induction n b alphabet arbitrary: acc rule: spec_divmod_digits.induct)
  case (1 n b alphabet)
  show ?case
  proof (cases "0 < n")
    case False
    then show ?thesis
      by (simp add: iter_digits_while.simps spec_divmod_digits.simps)
  next
    case True
    from "1.prems" have "0 < b"
      by simp
    then have "0 \<le> n mod b" and "n mod b < b"
      by simp_all
    with "1.prems" have m: "0 \<le> n mod b" "n mod b < int (length alphabet)"
      by linarith+
    have idx: "py_index alphabet (n mod b) = Inr (alphabet ! nat (n mod b))"
      using m by (rule py_index_in_range)
    have step: "iter_digits_while n b alphabet acc =
        iter_digits_while (n div b) b alphabet (acc @ [alphabet ! nat (n mod b)])"
      using True "1.prems" by (subst iter_digits_while.simps) (simp add: idx)
    have ih: "iter_digits_while (n div b) b alphabet (acc @ [alphabet ! nat (n mod b)]) =
        Some (Inr ((acc @ [alphabet ! nat (n mod b)]) @ spec_divmod_digits (n div b) b alphabet))"
      using True "1.prems" by (intro "1.IH") simp_all
    have unf: "spec_divmod_digits n b alphabet =
        alphabet ! nat (n mod b) # spec_divmod_digits (n div b) b alphabet"
      using True "1.prems" by (subst spec_divmod_digits.simps) simp
    show ?thesis
      by (simp add: step ih unf)
  qed
qed

lemma int2str_positive:
  assumes "2 \<le> b" "b \<le> int (length alphabet)" "0 < n"
  shows "int2str n b alphabet = Some (Inr (rev (spec_divmod_digits n b alphabet)))"
  using assms by (simp add: int2str_def iter_digits_def iter_digits_while_spec)

lemma int2str_negative:
  assumes "2 \<le> b" "b \<le> int (length alphabet)" "n < 0"
  shows "int2str n b alphabet = Some (Inr (CHR ''-'' # rev (spec_divmod_digits (- n) b alphabet)))"
  using assms by (simp add: int2str_def iter_digits_def iter_digits_while_spec)

lemma int2str_zero:
  assumes "2 \<le> b" "b \<le> int (length alphabet)"
  shows "int2str 0 b alphabet = Some (Inr [alphabet ! 0])"
proof -
  from assms have "0 < int (length alphabet)"
    by linarith
  then have "py_index alphabet 0 = Inr (alphabet ! 0)"
    by (simp add: py_index_def)
  then show ?thesis
    by (simp add: int2str_def iter_digits_def)
qed

text \<open>
  C8. For every base from 2 to 36 and every alphabet with at least that many symbols,
  \<open>int2str\<close> returns: 0 is encoded as the first symbol of the alphabet; a positive
  number as its digits by repeated \<open>divmod\<close> (least significant produced first, most
  significant last), reversed; a negative number as \<open>-\<close> followed by the encoding of
  its magnitude.
\<close>

theorem int2str_radix_encoding:
  assumes "2 \<le> base" and "base \<le> 36" and "base \<le> int (length alphabet)"
  shows "int2str 0 base alphabet = Some (Inr [alphabet ! 0])
    \<and> (0 < n \<longrightarrow> int2str n base alphabet = Some (Inr (rev (spec_divmod_digits n base alphabet))))
    \<and> (n < 0 \<longrightarrow> (\<exists>magnitude. int2str (- n) base alphabet = Some (Inr magnitude)
           \<and> magnitude = rev (spec_divmod_digits (- n) base alphabet)
           \<and> int2str n base alphabet = Some (Inr (CHR ''-'' # magnitude))))"
  using assms by (simp add: int2str_zero int2str_positive int2str_negative)

lemma spec_digits_1000: "spec_divmod_digits 1000 31 default_alphabet = ''811''"
  by code_simp

theorem int2str_radix_encoding_witness:
  "(2::int) \<le> 31 \<and> (31::int) \<le> 36 \<and> 31 \<le> int (length default_alphabet)
   \<and> int2str 0 31 default_alphabet = Some (Inr ''0'')
   \<and> int2str 1000 31 default_alphabet = Some (Inr ''118'')
   \<and> int2str (- 1000) 31 default_alphabet = Some (Inr ''-118'')"
proof -
  have h: "(2::int) \<le> 31" "(31::int) \<le> 36" "31 \<le> int (length default_alphabet)"
    by (simp_all add: default_alphabet_def)
  have z: "default_alphabet ! 0 = CHR ''0''"
    by (simp add: default_alphabet_def)
  from int2str_radix_encoding [OF h, of 1000] int2str_radix_encoding [OF h, of "- 1000"] h z
  show ?thesis
    by (simp add: spec_digits_1000)
qed

subsection \<open>Format B: key derivation\<close>

lemma LICENSE_TEMPLATE_nonempty: "LICENSE_TEMPLATE \<noteq> []"
  by (simp add: LICENSE_TEMPLATE_def)

lemma first_template:
  "py_format (key_templates ! 0) kw =
     (case kw ''quantity_users'' of None \<Rightarrow> Inl (KeyError ''quantity_users'') | Some a \<Rightarrow>
      case kw ''license_type'' of None \<Rightarrow> Inl (KeyError ''license_type'') | Some b \<Rightarrow>
      case kw ''name'' of None \<Rightarrow> Inl (KeyError ''name'') | Some c \<Rightarrow>
      case kw ''organisation'' of None \<Rightarrow> Inl (KeyError ''organisation'') | Some d \<Rightarrow>
      case kw ''expiration_date'' of None \<Rightarrow> Inl (KeyError ''expiration_date'') | Some e \<Rightarrow>
      case kw ''node_part'' of None \<Rightarrow> Inl (KeyError ''node_part'') | Some f \<Rightarrow>
        Inr (format_value a @ format_value b @ format_value c @ format_value d
             @ format_value e @ format_value f))"
  by (simp add: key_templates_def py_format_def split: option.splits)

lemma collect_first_error:
  "f (ts ! 0) = Inl e \<Longrightarrow> ts \<noteq> [] \<Longrightarrow> collect f ts = Inl e"
  by (cases ts) simp_all

lemma key_templates_nonempty: "key_templates \<noteq> []"
  by (simp add: key_templates_def)

lemma calculate_license_key_missing:
  assumes np: "variables ''node_part'' = None"
    and miss: "variables ''quantity_users'' = None \<or> variables ''license_type'' = None
      \<or> variables ''name'' = None \<or> variables ''organisation'' = None
      \<or> variables ''expiration_date'' = None"
  shows "\<exists>k. k \<in> set [''quantity_users'', ''license_type'', ''name'', ''organisation'',
                        ''expiration_date'']
            \<and> variables k = None \<and> calculate_license_key variables = Inl (KeyError k)"
proof -
  define p where "p = (let nodes_count = (case variables ''quantity_nodes'' of None \<Rightarrow> PInt 0 | Some v \<Rightarrow> v)
      in if greater_than_one nodes_count then format_value nodes_count else [])"
  define kw where "kw = variables(''node_part'' \<mapsto> PStr p)"
  define f where "f = (\<lambda>t. if variables ''node_part'' \<noteq> None then Inl TypeError
                     else map_sum id rs_hash (py_format t kw))"
  have calc: "calculate_license_key variables =
      (case collect f key_templates of Inl e \<Rightarrow> Inl e | Inr hashes \<Rightarrow> Inr (join ''-'' hashes))"
    unfolding calculate_license_key_def f_def kw_def p_def Let_def by (rule refl)
  have kw: "kw ''quantity_users'' = variables ''quantity_users''"
    "kw ''license_type'' = variables ''license_type''" "kw ''name'' = variables ''name''"
    "kw ''organisation'' = variables ''organisation''"
    "kw ''expiration_date'' = variables ''expiration_date''"
    by (simp_all add: kw_def)
  from miss have "\<exists>k. k \<in> set [''quantity_users'', ''license_type'', ''name'', ''organisation'',
                        ''expiration_date'']
            \<and> variables k = None \<and> py_format (key_templates ! 0) kw = Inl (KeyError k)"
    unfolding first_template kw by (auto split: option.splits)
  then obtain k where k: "k \<in> set [''quantity_users'', ''license_type'', ''name'',
      ''organisation'', ''expiration_date'']" "variables k = None"
      "py_format (key_templates ! 0) kw = Inl (KeyError k)"
    by blast
  have "f (key_templates ! 0) = Inl (KeyError k)"
    using np k(3) by (simp add: f_def)
  then have "collect f key_templates = Inl (KeyError k)"
    using key_templates_nonempty by (rule collect_first_error)
  with calc k(1,2) show ?thesis
    by auto
qed


lemma key_templates_formatted:
  assumes "kw ''quantity_users'' = Some u" "kw ''license_type'' = Some l" "kw ''name'' = Some n"
    "kw ''organisation'' = Some g" "kw ''expiration_date'' = Some e" "kw ''node_part'' = Some p"
  shows "collect (\<lambda>t. map_sum id rs_hash (py_format t kw)) key_templates =
     Inr [rs_hash (format_value u @ format_value l @ format_value n @ format_value g
                   @ format_value e @ format_value p),
          rs_hash (format_value g @ format_value u @ format_value p @ format_value l
                   @ format_value e @ format_value n),
          rs_hash (format_value p @ format_value g @ format_value n @ format_value u
                   @ format_value l @ format_value e),
          rs_hash (format_value n @ format_value e @ format_value p @ format_value g
                   @ format_value l @ format_value u)]"
  using assms by (simp add: key_templates_def py_format_def)

lemma calculate_license_key_present:
  assumes "variables ''quantity_users'' = Some u" and "variables ''license_type'' = Some l"
    and "variables ''name'' = Some n" and "variables ''organisation'' = Some g"
    and "variables ''expiration_date'' = Some e"
    and "variables ''node_part'' = None"
    and p: "p = (let nodes_count = (case variables ''quantity_nodes'' of None \<Rightarrow> PInt 0 | Some v \<Rightarrow> v)
      in if greater_than_one nodes_count then format_value nodes_count else [])"
  shows "calculate_license_key variables =
     Inr (join ''-''
          [rs_hash (format_value u @ format_value l @ format_value n @ format_value g
                    @ format_value e @ p),
           rs_hash (format_value g @ format_value u @ p @ format_value l
                    @ format_value e @ format_value n),
           rs_hash (p @ format_value g @ format_value n @ format_value u
                    @ format_value l @ format_value e),
           rs_hash (format_value n @ format_value e @ p @ format_value g
                    @ format_value l @ format_value u)])"
proof -
  define kw where "kw = variables(''node_part'' \<mapsto> PStr p)"
  have kw: "kw ''quantity_users'' = Some u" "kw ''license_type'' = Some l" "kw ''name'' = Some n"
    "kw ''organisation'' = Some g" "kw ''expiration_date'' = Some e" "kw ''node_part'' = Some (PStr p)"
    using assms(1-6) by (simp_all add: kw_def)
  have "calculate_license_key variables =
      (case collect (\<lambda>t. map_sum id rs_hash (py_format t kw)) key_templates of
         Inl e \<Rightarrow> Inl e | Inr hashes \<Rightarrow> Inr (join ''-'' hashes))"
    unfolding calculate_license_key_def kw_def p Let_def using assms(6) by simp
  then show ?thesis
    by (simp only: key_templates_formatted [OF kw] sum.case format_value.simps)
qed

text \<open>
  What \<open>_calculate_license_key\<close> returns on a field mapping that has the five text
  fields and an integer \<open>quantity_nodes\<close>, and no entry named \<open>node_part\<close>: the four
  RS hashes of the four field orders joined with \<open>-\<close>, where the node part is the
  decimal numeral of \<open>quantity_nodes\<close> when it is greater than 1 and empty otherwise.
\<close>

theorem license_key_four_hashes:
  assumes "variables ''quantity_users'' = Some u" and "variables ''license_type'' = Some l"
    and "variables ''name'' = Some n" and "variables ''organisation'' = Some g"
    and "variables ''expiration_date'' = Some e"
    and "variables ''quantity_nodes'' = Some (PInt nodes)"
    and "variables ''node_part'' = None"
    and "node_part = (if nodes > 1 then format_int nodes else [])"
  shows "calculate_license_key variables =
     Inr (join ''-''
          [rs_hash (format_value u @ format_value l @ format_value n @ format_value g
                    @ format_value e @ node_part),
           rs_hash (format_value g @ format_value u @ node_part @ format_value l
                    @ format_value e @ format_value n),
           rs_hash (node_part @ format_value g @ format_value n @ format_value u
                    @ format_value l @ format_value e),
           rs_hash (format_value n @ format_value e @ node_part @ format_value g
                    @ format_value l @ format_value u)])"
  using assms(1-5,7) by (rule calculate_license_key_present) (simp add: assms(6,8))

lemma sample_hashes:
  "rs_hash ''5TRIALjiraACME12/31/322'' = ''1532987343''"
  "rs_hash ''ACME52TRIAL12/31/32jira'' = ''112118441''"
  "rs_hash ''2ACMEjira5TRIAL12/31/32'' = ''1382562231''"
  "rs_hash ''jira12/31/322ACMETRIAL5'' = ''468164673''"
  by (simp_all add: rs_eval)

theorem license_key_four_hashes_witness:
  "calculate_license_key (sample_fields(''quantity_nodes'' \<mapsto> PInt 2))
     = Inr ''1532987343-112118441-1382562231-468164673''"
proof -
  let ?v = "sample_fields(''quantity_nodes'' \<mapsto> PInt 2)"
  have v: "?v ''quantity_users'' = Some (PInt 5)" "?v ''license_type'' = Some (PStr ''TRIAL'')"
    "?v ''name'' = Some (PStr ''jira'')" "?v ''organisation'' = Some (PStr ''ACME'')"
    "?v ''expiration_date'' = Some (PStr ''12/31/32'')" "?v ''quantity_nodes'' = Some (PInt 2)"
    "?v ''node_part'' = None"
    by (simp_all add: sample_fields_def)
  have f: "format_int 5 = ''5''" "format_int 2 = ''2''"
    by (simp_all add: format_int_def dec_digits.simps digit_char_def)
  have n: "''2'' = (if (2::int) > 1 then format_int 2 else [])"
    by (simp add: f)
  show ?thesis
    unfolding license_key_four_hashes [OF v n] format_value.simps f
    by (simp add: sample_hashes)
qed

lemma LICENSE_TEMPLATE_head: "LICENSE_TEMPLATE \<noteq> [] \<and> hd LICENSE_TEMPLATE = CHR ''{''"
  by (simp add: LICENSE_TEMPLATE_def)

lemma strip_nonempty:
  assumes "s \<noteq> []" and "\<not> isspace (hd s)"
  shows "strip s \<noteq> []"
proof -
  have "dropWhile isspace s = s"
    using assms by (cases s) simp_all
  moreover have "hd s \<in> set (rev s)"
    using assms(1) by simp
  then have "dropWhile isspace (rev s) \<noteq> []"
    using assms(2) by (auto simp: dropWhile_eq_Nil_conv)
  ultimately show ?thesis
    by (simp add: strip_def)
qed

lemma strip_LICENSE_TEMPLATE_nonempty: "strip LICENSE_TEMPLATE \<noteq> []"
  using LICENSE_TEMPLATE_head by (intro strip_nonempty) (simp_all add: isspace_def)

text \<open>
  C4. The key is the four hashes joined with \<open>-\<close> for every mapping that holds the six
  fields. The code does not deliver this for a mapping that also has an entry named
  \<open>node_part\<close> (a variable given as \<open>-v node_part=7\<close>): the call
  \<open>t.format(node_part=node_part, **variables)\<close> then passes the keyword twice, and
  both \<open>_calculate_license_key\<close> and \<open>generate\<close> end in a \<open>TypeError\<close> instead of a
  key.
\<close>

theorem node_part_keyword_collision:
  "calculate_license_key (sample_fields(''quantity_nodes'' \<mapsto> PInt 2, ''node_part'' \<mapsto> PStr ''7''))
     = Inl TypeError
   \<and> generate gliffy_init ''jira'' ''ACME'' (Some [''node_part'' \<mapsto> PStr ''7'']) None
     = Inl TypeError"
  by (simp add: sample_fields_def generate_def gliffy_init_def LICENSE_TEMPLATE_nonempty
      strip_LICENSE_TEMPLATE_nonempty KNOWN_PRODUCTS_def generate_default_variables_def
      calculate_license_key_def key_templates_def)

lemma generate_unknown_product:
  assumes "KNOWN_PRODUCTS product = None"
  shows "generate gliffy_init product organisation None custom_template
           = Inl (LicenseGenerationError (MissingKeyVariable ''name''))"
proof -
  define tv where "tv = (if organisation \<noteq> []
      then generate_default_variables(''organisation'' \<mapsto> PStr organisation)
      else generate_default_variables) ++ Map.empty"
  have np: "tv ''node_part'' = None"
    by (simp add: tv_def generate_default_variables_def)
  have nm: "tv ''name'' = None" and others: "tv ''quantity_users'' \<noteq> None" "tv ''license_type'' \<noteq> None"
    by (simp_all add: tv_def generate_default_variables_def)
  have fmt: "py_format (key_templates ! 0) (tv(''node_part'' \<mapsto> PStr p)) = Inl (KeyError ''name'')" for p
    unfolding first_template using nm others
    by (auto simp: tv_def generate_default_variables_def split: option.splits)
  have "calculate_license_key tv = Inl (KeyError ''name'')"
    unfolding calculate_license_key_def Let_def
    using np fmt key_templates_nonempty
    by (subst collect_first_error [where e = "KeyError ''name''"]) simp_all
  moreover have "strip LICENSE_TEMPLATE \<noteq> []"
    by (simp add: LICENSE_TEMPLATE_def strip_def isspace_def)
  ultimately show ?thesis
    using assms by (simp add: generate_def gliffy_init_def LICENSE_TEMPLATE_nonempty tv_def)
qed

text \<open>
  C10. Two calls of \<open>generate\<close> that differ only in \<open>custom_template\<close> give the same
  result, text or error: the generator's own template is \<open>LICENSE_TEMPLATE\<close>, which is
  not empty and is taken before the caller's.
\<close>

theorem generate_ignores_custom_template:
  "generate gliffy_init product organisation custom_variables t1
     = generate gliffy_init product organisation custom_variables t2
   \<and> self_template gliffy_init = LICENSE_TEMPLATE \<and> LICENSE_TEMPLATE \<noteq> []"
  by (simp add: generate_def gliffy_init_def LICENSE_TEMPLATE_nonempty)

text \<open>
  C7 (amended). For every field mapping without an entry \<open>node_part\<close>: when one of
  \<open>quantity_users\<close>, \<open>license_type\<close>, \<open>name\<close>, \<open>organisation\<close>, \<open>expiration_date\<close> is
  missing, key derivation raises \<open>KeyError\<close> for a missing field and produces no key
  (\<open>generate\<close> reports it as a \<open>LicenseGenerationError\<close>, as for an unknown product
  with no \<open>name\<close> given); a missing \<open>quantity_nodes\<close> is read as 0, and the key is
  derived with an empty node part.
\<close>

theorem missing_field_aborts_key_derivation:
  assumes "variables ''node_part'' = None"
  shows "(variables ''quantity_users'' = None \<or> variables ''license_type'' = None
          \<or> variables ''name'' = None \<or> variables ''organisation'' = None
          \<or> variables ''expiration_date'' = None
          \<longrightarrow> (\<exists>k. k \<in> set [''quantity_users'', ''license_type'', ''name'', ''organisation'',
                               ''expiration_date'']
                 \<and> variables k = None \<and> calculate_license_key variables = Inl (KeyError k)))
    \<and> (variables ''quantity_users'' = Some u \<and> variables ''license_type'' = Some l
         \<and> variables ''name'' = Some n \<and> variables ''organisation'' = Some g
         \<and> variables ''expiration_date'' = Some e \<and> variables ''quantity_nodes'' = None
         \<longrightarrow> calculate_license_key variables =
               Inr (join ''-''
                 [rs_hash (format_value u @ format_value l @ format_value n @ format_value g
                           @ format_value e),
                  rs_hash (format_value g @ format_value u @ format_value l
                           @ format_value e @ format_value n),
                  rs_hash (format_value g @ format_value n @ format_value u
                           @ format_value l @ format_value e),
                  rs_hash (format_value n @ format_value e @ format_value g
                           @ format_value l @ format_value u)]))
    \<and> (KNOWN_PRODUCTS product = None
         \<longrightarrow> generate gliffy_init product organisation None custom_template
               = Inl (LicenseGenerationError (MissingKeyVariable ''name'')))"
proof (intro conjI impI)
  assume "variables ''quantity_users'' = None \<or> variables ''license_type'' = None
          \<or> variables ''name'' = None \<or> variables ''organisation'' = None
          \<or> variables ''expiration_date'' = None"
  with assms show "\<exists>k. k \<in> set [''quantity_users'', ''license_type'', ''name'', ''organisation'',
                               ''expiration_date'']
                 \<and> variables k = None \<and> calculate_license_key variables = Inl (KeyError k)"
    by (rule calculate_license_key_missing)
next
  assume a: "variables ''quantity_users'' = Some u \<and> variables ''license_type'' = Some l
         \<and> variables ''name'' = Some n \<and> variables ''organisation'' = Some g
         \<and> variables ''expiration_date'' = Some e \<and> variables ''quantity_nodes'' = None"
  have "calculate_license_key variables =
     Inr (join ''-''
          [rs_hash (format_value u @ format_value l @ format_value n @ format_value g
                    @ format_value e @ []),
           rs_hash (format_value g @ format_value u @ [] @ format_value l
                    @ format_value e @ format_value n),
           rs_hash ([] @ format_value g @ format_value n @ format_value u
                    @ format_value l @ format_value e),
           rs_hash (format_value n @ format_value e @ [] @ format_value g
                    @ format_value l @ format_value u)])"
    using a assms by (intro calculate_license_key_present) simp_all
  then show "calculate_license_key variables =
               Inr (join ''-''
                 [rs_hash (format_value u @ format_value l @ format_value n @ format_value g
                           @ format_value e),
                  rs_hash (format_value g @ format_value u @ format_value l
                           @ format_value e @ format_value n),
                  rs_hash (format_value g @ format_value n @ format_value u
                           @ format_value l @ format_value e),
                  rs_hash (format_value n @ format_value e @ format_value g
                           @ format_value l @ format_value u)])"
    by simp
next
  assume "KNOWN_PRODUCTS product = None"
  then show "generate gliffy_init product organisation None custom_template
               = Inl (LicenseGenerationError (MissingKeyVariable ''name''))"
    by (rule generate_unknown_product)
qed


lemma sample_hashes_no_nodes:
  "rs_hash ''5TRIALjiraACME12/31/32'' = ''1584831621''"
  "rs_hash ''ACME5TRIAL12/31/32jira'' = ''153994329''"
  "rs_hash ''ACMEjira5TRIAL12/31/32'' = ''1099169145''"
  "rs_hash ''jira12/31/32ACMETRIAL5'' = ''1311483477''"
  by (simp_all add: rs_eval)

lemma format_int_5: "format_int 5 = ''5''"
  by (simp add: format_int_def dec_digits.simps digit_char_def)

lemma sample_fields_lookup:
  "sample_fields ''quantity_users'' = Some (PInt 5)"
  "sample_fields ''license_type'' = Some (PStr ''TRIAL'')"
  "sample_fields ''name'' = Some (PStr ''jira'')"
  "sample_fields ''organisation'' = Some (PStr ''ACME'')"
  "sample_fields ''expiration_date'' = Some (PStr ''12/31/32'')"
  "sample_fields ''quantity_nodes'' = None"
  "sample_fields ''node_part'' = None"
  by (simp_all add: sample_fields_def)

theorem missing_field_aborts_key_derivation_witness:
  "calculate_license_key (sample_fields(''organisation'' := None)) = Inl (KeyError ''organisation'')
   \<and> calculate_license_key sample_fields = Inr ''1584831621-153994329-1099169145-1311483477''
   \<and> generate gliffy_init ''custom'' ''ACME'' None None
       = Inl (LicenseGenerationError (MissingKeyVariable ''name''))"
proof -
  let ?v = "sample_fields(''organisation'' := None)"
  have np: "?v ''node_part'' = None"
    by (simp add: sample_fields_lookup)
  have miss: "?v ''quantity_users'' = None \<or> ?v ''license_type'' = None \<or> ?v ''name'' = None
      \<or> ?v ''organisation'' = None \<or> ?v ''expiration_date'' = None"
    by simp
  from missing_field_aborts_key_derivation [where variables = "?v", OF np] miss
  obtain k where k: "k \<in> set [''quantity_users'', ''license_type'', ''name'', ''organisation'',
      ''expiration_date'']" "?v k = None" "calculate_license_key ?v = Inl (KeyError k)"
    by blast
  from k(1,2) have "k = ''organisation''"
    by (auto simp: sample_fields_lookup)
  with k(3) have one: "calculate_license_key ?v = Inl (KeyError ''organisation'')"
    by simp
  have present: "sample_fields ''quantity_users'' = Some (PInt 5)
      \<and> sample_fields ''license_type'' = Some (PStr ''TRIAL'')
      \<and> sample_fields ''name'' = Some (PStr ''jira'')
      \<and> sample_fields ''organisation'' = Some (PStr ''ACME'')
      \<and> sample_fields ''expiration_date'' = Some (PStr ''12/31/32'')
      \<and> sample_fields ''quantity_nodes'' = None"
    by (simp add: sample_fields_lookup)
  from missing_field_aborts_key_derivation [where variables = sample_fields
      and u = "PInt 5" and l = "PStr ''TRIAL''" and n = "PStr ''jira''" and g = "PStr ''ACME''"
      and e = "PStr ''12/31/32''", OF sample_fields_lookup(7)] present
  have "calculate_license_key sample_fields =
      Inr (join ''-''
        [rs_hash (format_value (PInt 5) @ format_value (PStr ''TRIAL'') @ format_value (PStr ''jira'')
                  @ format_value (PStr ''ACME'') @ format_value (PStr ''12/31/32'')),
         rs_hash (format_value (PStr ''ACME'') @ format_value (PInt 5) @ format_value (PStr ''TRIAL'')
                  @ format_value (PStr ''12/31/32'') @ format_value (PStr ''jira'')),
         rs_hash (format_value (PStr ''ACME'') @ format_value (PStr ''jira'') @ format_value (PInt 5)
                  @ format_value (PStr ''TRIAL'') @ format_value (PStr ''12/31/32'')),
         rs_hash (format_value (PStr ''jira'') @ format_value (PStr ''12/31/32'')
                  @ format_value (PStr ''ACME'') @ format_value (PStr ''TRIAL'')
                  @ format_value (PInt 5))])"
    by blast
  then have two: "calculate_license_key sample_fields
      = Inr ''1584831621-153994329-1099169145-1311483477''"
    by (simp add: format_int_5 sample_hashes_no_nodes)
  have "KNOWN_PRODUCTS ''custom'' = None"
    by (simp add: KNOWN_PRODUCTS_def)
  with missing_field_aborts_key_derivation [where variables = "?v" and product = "''custom''"
      and organisation = "''ACME''" and custom_template = None, OF np]
  have three: "generate gliffy_init ''custom'' ''ACME'' None None
       = Inl (LicenseGenerationError (MissingKeyVariable ''name''))"
    by blast
  from one two three show ?thesis
    by simp
qed

text \<open>
  C7 as stated fails for \<open>quantity_nodes\<close>: a mapping that lacks only this field
  yields a key.
\<close>

theorem missing_quantity_nodes_counterexample:
  "sample_fields ''quantity_nodes'' = None
   \<and> calculate_license_key sample_fields = Inr ''1584831621-153994329-1099169145-1311483477''"
proof -
  have "calculate_license_key sample_fields =
     Inr (join ''-''
          [rs_hash (format_value (PInt 5) @ format_value (PStr ''TRIAL'') @ format_value (PStr ''jira'')
                    @ format_value (PStr ''ACME'') @ format_value (PStr ''12/31/32'') @ []),
           rs_hash (format_value (PStr ''ACME'') @ format_value (PInt 5) @ []
                    @ format_value (PStr ''TRIAL'') @ format_value (PStr ''12/31/32'')
                    @ format_value (PStr ''jira'')),
           rs_hash ([] @ format_value (PStr ''ACME'') @ format_value (PStr ''jira'')
                    @ format_value (PInt 5) @ format_value (PStr ''TRIAL'')
                    @ format_value (PStr ''12/31/32'')),
           rs_hash (format_value (PStr ''jira'') @ format_value (PStr ''12/31/32'') @ []
                    @ format_value (PStr ''ACME'') @ format_value (PStr ''TRIAL'')
                    @ format_value (PInt 5))])"
    by (rule calculate_license_key_present [OF sample_fields_lookup(1-5,7)])
       (simp add: sample_fields_lookup)
  then show ?thesis
    by (simp add: format_int_5 sample_hashes_no_nodes sample_fields_lookup)
qed

subsection \<open>Format A: reading a token\<close>

lemma rfind_from_absent: "c \<notin> set s \<Longrightarrow> rfind_from c s i found = found"
  by (induction s arbitrary: i found) auto

lemma rfind_from_last:
  "c \<notin> set b \<Longrightarrow> rfind_from c (a @ c # b) i found = int (i + length a)"
  by (induction a arbitrary: i found) (auto simp: rfind_from_absent)

lemma rfind_absent: "c \<notin> set s \<Longrightarrow> rfind s c = - 1"
  by (simp add: rfind_def rfind_from_absent)

lemma rfind_last: "c \<notin> set b \<Longrightarrow> rfind (a @ c # b) c = int (length a)"
  by (simp add: rfind_def rfind_from_last)

lemma clip_bound_inside: "n \<le> m \<Longrightarrow> clip_bound m (int n) = n"
  by (simp add: clip_bound_def)

lemma slice_nat:
  "i \<le> j \<Longrightarrow> j \<le> length s \<Longrightarrow> slice s (int i) (int j) = take (j - i) (drop i s)"
  by (simp add: slice_def clip_bound_inside)

lemma slice_from_nat: "i \<le> length s \<Longrightarrow> slice_from s (int i) = drop i s"
  by (simp add: slice_from_def clip_bound_inside)

lemma slice_version:
  assumes "3 \<le> length b"
  shows "slice (a @ c # b) (int (length a) + 1) (int (length a) + int VERSION_LENGTH) = take 2 b"
proof -
  have "slice (a @ c # b) (int (length a + 1)) (int (length a + 3))
      = take (length a + 3 - (length a + 1)) (drop (length a + 1) (a @ c # b))"
    using assms by (intro slice_nat) simp_all
  then show ?thesis
    by (simp add: VERSION_LENGTH_def ac_simps)
qed

lemma slice_from_suffix:
  assumes "3 \<le> length b"
  shows "slice_from (a @ c # b) (int (length a) + int VERSION_LENGTH) = drop 2 b"
proof -
  have "slice_from (a @ c # b) (int (length a + 3)) = drop (length a + 3) (a @ c # b)"
    using assms by (intro slice_from_nat) simp
  then show ?thesis
    by (simp add: VERSION_LENGTH_def ac_simps)
qed

lemma slice_to_prefix: "slice_to (a @ c # b) (int (length a)) = a"
  by (simp add: slice_to_def clip_bound_inside)

lemma get_license_content_split:
  assumes "SEPARATOR \<notin> set b"
  shows "get_license_content (a @ SEPARATOR # b) =
     (if length b < 3 then Inl (LicenseDecodeError Incomplete)
      else case py_int 10 (take 2 b) of
             None \<Rightarrow> Inl (LicenseDecodeError NonIntegerVersion)
           | Some version \<Rightarrow>
               if version \<notin> VALID_VERSION_NUMBERS
               then Inl (LicenseDecodeError (UnsupportedVersion version))
               else (case py_int ENCODED_LICENSE_LENGTH_BASE (drop 2 b) of
                       None \<Rightarrow> Inl (LicenseDecodeError NonBaseLength)
                     | Some license_length \<Rightarrow>
                         if int (length a) \<noteq> license_length
                         then Inl (LicenseDecodeError (IncorrectChecksum license_length (int (length a))))
                         else Inr a))"
proof (cases "length b < 3")
  case True
  then show ?thesis
    using assms by (simp add: get_license_content_def rfind_last VERSION_LENGTH_def)
next
  case False
  then have b: "3 \<le> length b"
    by simp
  have pos: "rfind (a @ SEPARATOR # b) SEPARATOR = int (length a)"
    using assms by (rule rfind_last)
  have nc: "\<not> int (length a) + int VERSION_LENGTH \<ge> int (length (a @ SEPARATOR # b))"
    using b by (simp add: VERSION_LENGTH_def)
  show ?thesis
    unfolding get_license_content_def pos Let_def
    using b nc
    by (simp add: slice_version slice_from_suffix slice_to_prefix
        split: option.splits)
qed

lemma last_separator_unique:
  fixes a b :: string
  assumes "a @ c # b = a' @ c # b'" and "c \<notin> set b" and "c \<notin> set b'"
  shows "a = a' \<and> b = b'"
proof -
  have "rfind (a @ c # b) c = int (length a)" "rfind (a' @ c # b') c = int (length a')"
    using assms(2,3) by (simp_all add: rfind_last)
  with assms(1) have "length a = length a'"
    by simp
  with assms(1) show ?thesis
    by simp
qed

lemma get_license_content_no_separator:
  assumes "SEPARATOR \<notin> set t"
  shows "get_license_content t
           = Inl (LicenseDecodeError (if t = [] then NoContent else NoSeparator))"
  using assms by (simp add: get_license_content_def rfind_absent)

lemma get_license_content_past_check:
  assumes "SEPARATOR \<notin> set b" and "3 \<le> length b"
  shows "get_license_content (a @ SEPARATOR # b) \<notin> separator_check_errors"
  using assms
  by (simp add: get_license_content_split separator_check_errors_def split: option.splits)

lemma decoder_decode_content_error:
  assumes "raw \<noteq> []" and "get_license_content (remove_whitespaces raw) = Inl err"
  shows "decoder_decode e key raw need_verify = Inl err"
  using assms by (simp add: decoder_decode_def)

text \<open>
  C6 (amended). On a token without white space, \<open>_get_license_content\<close> looks for the
  last separator \<open>X\<close> and fails at this check (no content, no separator, incomplete
  license) exactly when the separator is absent or fewer than 3 characters follow its
  last occurrence: the two version digits and at least one digit of the length. Every
  error of \<open>_get_license_content\<close> is the error of \<open>decode\<close> on a non-empty token.
\<close>

theorem separator_check:
  "(get_license_content t \<in> separator_check_errors
      \<longleftrightarrow> SEPARATOR \<notin> set t
          \<or> (\<exists>a b. t = a @ SEPARATOR # b \<and> SEPARATOR \<notin> set b \<and> length b < 3))
   \<and> (raw \<noteq> [] \<and> get_license_content (remove_whitespaces raw) = Inl err
        \<longrightarrow> decoder_decode e key raw need_verify = Inl err)"
proof (intro conjI impI)
  show "get_license_content t \<in> separator_check_errors
      \<longleftrightarrow> SEPARATOR \<notin> set t
          \<or> (\<exists>a b. t = a @ SEPARATOR # b \<and> SEPARATOR \<notin> set b \<and> length b < 3)"
  proof (cases "SEPARATOR \<in> set t")
    case False
    then show ?thesis
      by (simp add: get_license_content_no_separator separator_check_errors_def)
  next
    case True
    then obtain a b where t: "t = a @ SEPARATOR # b" and b: "SEPARATOR \<notin> set b"
      by (auto dest: split_list_last)
    show ?thesis
    proof (cases "length b < 3")
      case short: True
      then have "get_license_content t = Inl (LicenseDecodeError Incomplete)"
        using b by (simp add: t get_license_content_split)
      with short t b True show ?thesis
        by (auto simp: separator_check_errors_def)
    next
      case long: False
      then have past: "get_license_content t \<notin> separator_check_errors"
        using b by (simp add: t get_license_content_past_check)
      have "\<not> (\<exists>a' b'. t = a' @ SEPARATOR # b' \<and> SEPARATOR \<notin> set b' \<and> length b' < 3)"
      proof
        assume "\<exists>a' b'. t = a' @ SEPARATOR # b' \<and> SEPARATOR \<notin> set b' \<and> length b' < 3"
        then obtain a' b' where "t = a' @ SEPARATOR # b'" "SEPARATOR \<notin> set b'" "length b' < 3"
          by blast
        with t b have "b = b'"
          using last_separator_unique [of a SEPARATOR b a' b'] by simp
        with long \<open>length b' < 3\<close> show False
          by simp
      qed
      with past True show ?thesis
        by simp
    qed
  qed
next
  assume "raw \<noteq> [] \<and> get_license_content (remove_whitespaces raw) = Inl err"
  then show "decoder_decode e key raw need_verify = Inl err"
    by (simp add: decoder_decode_content_error)
qed

theorem separator_check_witness:
  "(\<exists>a b. ''abcX02'' = a @ SEPARATOR # b \<and> SEPARATOR \<notin> set b \<and> length b < 3)
   \<and> get_license_content ''abcX02'' \<in> separator_check_errors
   \<and> ''abc X0 2'' \<noteq> []
   \<and> get_license_content (remove_whitespaces ''abc X0 2'') = Inl (LicenseDecodeError Incomplete)
   \<and> decoder_decode sample_env ''atlassian.pem'' ''abc X0 2'' True
       = Inl (LicenseDecodeError Incomplete)"
proof -
  have "''abcX02'' = ''abc'' @ SEPARATOR # ''02'' \<and> SEPARATOR \<notin> set ''02'' \<and> length ''02'' < 3"
    by (simp add: SEPARATOR_def)
  then have ex: "\<exists>a b. ''abcX02'' = a @ SEPARATOR # b \<and> SEPARATOR \<notin> set b \<and> length b < 3"
    by blast
  have ws: "remove_whitespaces ''abc X0 2'' = ''abcX02''"
    by (simp add: remove_whitespaces_def isspace_def)
  have g: "get_license_content ''abcX02'' = Inl (LicenseDecodeError Incomplete)"
    by (simp add: get_license_content_def rfind_def SEPARATOR_def VERSION_LENGTH_def)
  note inst = separator_check [of "''abcX02''" "''abc X0 2''" "LicenseDecodeError Incomplete"
      sample_env "''atlassian.pem''" True]
  from inst ex have 1: "get_license_content ''abcX02'' \<in> separator_check_errors"
    by blast
  from inst ws g have 2: "decoder_decode sample_env ''atlassian.pem'' ''abc X0 2'' True
       = Inl (LicenseDecodeError Incomplete)"
    by simp
  from ex 1 2 ws g show ?thesis
    by simp
qed

text \<open>
  C6 as stated fails for a token with exactly two characters after the last \<open>X\<close>: it
  does not pass the check.
\<close>

theorem two_characters_after_separator_counterexample:
  "get_license_content ''abcX02'' = Inl (LicenseDecodeError Incomplete)
   \<and> decoder_decode sample_env ''atlassian.pem'' ''abcX02'' True
       = Inl (LicenseDecodeError Incomplete)"
proof -
  have ws: "remove_whitespaces ''abcX02'' = ''abcX02''"
    by (simp add: remove_whitespaces_def isspace_def)
  have g: "get_license_content ''abcX02'' = Inl (LicenseDecodeError Incomplete)"
    by (simp add: get_license_content_def rfind_def SEPARATOR_def VERSION_LENGTH_def)
  show ?thesis
    by (simp add: g decoder_decode_def ws)
qed

subsection \<open>Format A: the radix-31 length and the version digits\<close>













subsection \<open>Base64 and UTF-8 on the symbols of a token\<close>

lemma upt_64:
  "[0..<64] = [0, 1, 2, 3, 4, 5, 6, 7, 8, 9, 10, 11, 12, 13, 14, 15, 16, 17, 18, 19, 20, 21,
     22, 23, 24, 25, 26, 27, 28, 29, 30, 31, 32, 33, 34, 35, 36, 37, 38, 39, 40, 41, 42, 43,
     44, 45, 46, 47, 48, 49, 50, 51, 52, 53, 54, 55, 56, 57, 58, 59, 60, 61, 62, 63]"
  by (simp add: upt_rec)

lemma b64_symbols:
  "\<forall>i \<in> set [0..<64]. unat (b64_symbol i) < 128
      \<and> table_a2b_base64 (b64_symbol i) = Some i
      \<and> b64_symbol i \<noteq> 61 \<and> b64_symbol i \<noteq> 13 \<and> b64_symbol i \<noteq> 10 \<and> b64_symbol i \<noteq> 32
      \<and> \<not> isspace (b64_alphabet ! i) \<and> b64_alphabet ! i \<noteq> CHR ''-''
      \<and> b64_alphabet ! i \<noteq> CHR ''=''"
  unfolding upt_64
  by (simp add: b64_symbol_def b64_alphabet_def table_a2b_base64_def isspace_def)

lemma unat_byte_of_char: "unat (of_nat (of_char c) :: byte) = of_char c"
  by (simp add: unat_of_nat)

lemma char_of_b64_symbol: "char_of (unat (b64_symbol i)) = b64_alphabet ! i"
  by (simp add: b64_symbol_def unat_byte_of_char)

lemma b64_symbol_facts:
  assumes "i < 64"
  shows "unat (b64_symbol i) < 128" and "table_a2b_base64 (b64_symbol i) = Some i"
    and "b64_symbol i \<noteq> 61" and "b64_symbol i \<noteq> 13" and "b64_symbol i \<noteq> 10"
    and "b64_symbol i \<noteq> 32" and "\<not> isspace (b64_alphabet ! i)"
    and "b64_alphabet ! i \<noteq> CHR ''-''" and "b64_alphabet ! i \<noteq> CHR ''=''"
  using b64_symbols assms by simp_all

lemma unat_byte_bound: "unat (a :: byte) < 256"
proof -
  have "unat a < 2 ^ LENGTH(8)"
    by (rule unsigned_less)
  then show ?thesis
    by simp
qed

lemma b64_byte_symbol: "i < 64 \<Longrightarrow> b64_byte (b64_symbol i)"
  by (auto simp: b64_byte_def)

lemma b64_byte_pad: "b64_byte 61"
  by (simp add: b64_byte_def)

lemma b64encode_bytes: "b \<in> set (b64encode bs) \<Longrightarrow> b64_byte b"
proof (induction bs arbitrary: b rule: b64encode.induct)
  case 1
  then show ?case
    by simp
next
  case (2 a)
  have "unat a div 4 < 64" "unat a mod 4 * 16 < 64"
    using unat_byte_bound [of a] by simp_all
  with 2 show ?case
    by (auto simp: b64_byte_symbol b64_byte_pad)
next
  case (3 a c)
  have "unat a div 4 < 64" "unat a mod 4 * 16 + unat c div 16 < 64" "unat c mod 16 * 4 < 64"
    using unat_byte_bound [of a] unat_byte_bound [of c] by simp_all
  with 3 show ?case
    by (auto simp: b64_byte_symbol b64_byte_pad)
next
  case (4 a c d rest)
  have "unat a div 4 < 64" "unat a mod 4 * 16 + unat c div 16 < 64"
    "unat c mod 16 * 4 + unat d div 64 < 64" "unat d mod 64 < 64"
    using unat_byte_bound [of a] unat_byte_bound [of c] unat_byte_bound [of d] by simp_all
  with 4 show ?case
    by (auto simp: b64_byte_symbol b64_byte_pad)
qed

lemma b64encode_length: "length (b64encode bs) = 4 * ((length bs + 2) div 3)"
proof (induction bs rule: b64encode.induct)
  case (4 a b c rest)
  have "(length (a # b # c # rest) + 2) div 3 = Suc ((length rest + 2) div 3)"
    by simp
  with 4 show ?case
    by simp
qed simp_all




lemma utf8_encode_text_of_codes:
  "\<forall>b \<in> set bs. unat b < 128 \<Longrightarrow> utf8_encode (text_of_codes (map unat bs)) = bs"
  by (induction bs) (simp_all add: utf8_encode_def text_of_codes_def)

lemma utf8_roundtrip_ascii:
  "\<forall>c \<in> set s. (of_char c :: nat) < 128 \<Longrightarrow> utf8_decode (utf8_encode s) = Inr (codes_of_text s)"
  by (induction s) (simp_all add: utf8_encode_def codes_of_text_def unat_of_nat)

lemma char_of_pad: "char_of (61 :: nat) = CHR ''=''"
  by (simp add: char_of_eq_iff)

lemma b64_code_facts:
  assumes "b \<in> set (b64encode bs)"
  shows "unat b < 128" and "\<not> isspace (char_of (unat b))" and "char_of (unat b) \<noteq> CHR ''-''"
proof -
  from assms have "b64_byte b"
    by (rule b64encode_bytes)
  then have "(\<exists>i < 64. b = b64_symbol i) \<or> b = 61"
    by (simp add: b64_byte_def)
  then have "unat b < 128 \<and> \<not> isspace (char_of (unat b)) \<and> char_of (unat b) \<noteq> CHR ''-''"
  proof
    assume "\<exists>i < 64. b = b64_symbol i"
    then obtain i where "i < 64" "b = b64_symbol i"
      by auto
    then show ?thesis
      by (simp add: char_of_b64_symbol b64_symbol_facts)
  next
    assume "b = 61"
    then show ?thesis
      by (simp add: char_of_pad isspace_def)
  qed
  then show "unat b < 128" and "\<not> isspace (char_of (unat b))"
    and "char_of (unat b) \<noteq> CHR ''-''"
    by simp_all
qed


subsection \<open>Format A: what the encoder returns\<close>











lemma sample_signed_blob:
  "signed_blob sample_env ''hi'' = [0, 0, 0, 7, 13, 14, 12, 10, 15, 104, 105, 7]"
  by (simp add: signed_blob_def license_bytes_of_def sample_env_def utf8_encode_def
      LICENSE_PREFIX_def)

lemma sample_license_base64:
  "license_base64_of sample_env ''hi''
     = [65, 65, 65, 65, 66, 119, 48, 79, 68, 65, 111, 80, 97, 71, 107, 72]"
  by (simp add: license_base64_of_def sample_signed_blob b64_symbol_def b64_alphabet_def)




end
